theory Spec2Isabelle
  imports Complex_Main "HOL-Library.Word"
begin

section \<open>JavaScript values\<close>

text \<open>
  A JavaScript string is a sequence of 16-bit code units. String literals of the source
  are written \<open>js ''...''\<close>.
\<close>

type_synonym code_unit = "16 word"
type_synonym jsstring = "code_unit list"

definition js :: "string \<Rightarrow> jsstring" where
  "js s = map of_char s"

text \<open>
  A Number is NaN, an infinity, the negative zero, or a finite binary64 value, kept as the
  rational it denotes (\<open>Fin 0\<close> is the positive zero).
\<close>

datatype jsnum = NaN | PosInf | NegInf | NegZero | Fin rat

text \<open>
  The values the program handles: \<open>undefined\<close>, strings, numbers, and \<open>Inherited\<close>
  for a member found on \<open>Object.prototype\<close> (a built-in function or object).
\<close>

datatype jsval = Undefined | Str jsstring | Num jsnum | Inherited

definition isNaN :: "jsnum \<Rightarrow> bool" where
  "isNaN n = (n = NaN)"

text \<open>The comparison \<open>n > 0\<close> of the source: false for NaN and for both zeros.\<close>

fun gt_zero :: "jsnum \<Rightarrow> bool" where
  "gt_zero NaN = False"
| "gt_zero PosInf = True"
| "gt_zero NegInf = False"
| "gt_zero NegZero = False"
| "gt_zero (Fin r) = (0 < r)"

fun negate :: "jsnum \<Rightarrow> jsnum" where
  "negate NaN = NaN"
| "negate PosInf = NegInf"
| "negate NegInf = PosInf"
| "negate NegZero = Fin 0"
| "negate (Fin r) = (if r = 0 then NegZero else Fin (- r))"

section \<open>The built-in \<open>parseFloat\<close>\<close>

text \<open>
  \<open>parseFloat\<close> is a built-in of the language; the model follows ECMA-262
  (\<open>parseFloat\<close>, \<open>StrDecimalLiteral\<close>, \<open>StringNumericValue\<close>): leading white space
  is dropped, the longest prefix that is a \<open>StrDecimalLiteral\<close> is read, and its
  mathematical value is rounded to binary64 (nearest, ties to even).
\<close>

definition isWhiteSpace :: "code_unit \<Rightarrow> bool" where
  "isWhiteSpace c =
     (c \<in> set [0x0009, 0x000A, 0x000B, 0x000C, 0x000D, 0x0020, 0x00A0, 0x1680,
               0x2028, 0x2029, 0x202F, 0x205F, 0x3000, 0xFEFF]
      \<or> (0x2000 \<le> c \<and> c \<le> 0x200A))"

definition isDigit :: "code_unit \<Rightarrow> bool" where
  "isDigit c = (0x30 \<le> c \<and> c \<le> 0x39)"

definition digitValue :: "code_unit \<Rightarrow> nat" where
  "digitValue c = unat c - 48"

definition digitsValue :: "jsstring \<Rightarrow> nat" where
  "digitsValue ds = foldl (\<lambda>a c. 10 * a + digitValue c) 0 ds"

text \<open>
  \<open>ExponentPart\<close>: \<open>e\<close> or \<open>E\<close>, an optional sign and at least one digit; when the
  text does not start with a complete exponent part, the literal ends before it and
  the exponent is 0.
\<close>

definition signedInteger :: "jsstring \<Rightarrow> int option" where
  "signedInteger s =
     (case s of
        [] \<Rightarrow> None
      | c # r \<Rightarrow>
          if c = 0x2B then
            (if takeWhile isDigit r = [] then None
             else Some (int (digitsValue (takeWhile isDigit r))))
          else if c = 0x2D then
            (if takeWhile isDigit r = [] then None
             else Some (- int (digitsValue (takeWhile isDigit r))))
          else
            (if takeWhile isDigit s = [] then None
             else Some (int (digitsValue (takeWhile isDigit s)))))"

definition exponentPart :: "jsstring \<Rightarrow> int" where
  "exponentPart s =
     (case s of
        [] \<Rightarrow> 0
      | c # r \<Rightarrow>
          if c = 0x65 \<or> c = 0x45 then
            (case signedInteger r of None \<Rightarrow> 0 | Some x \<Rightarrow> x)
          else 0)"

text \<open>
  The longest prefix that is a \<open>StrUnsignedDecimalLiteral\<close>: \<open>Infinity\<close>, or a
  decimal literal, returned as a natural number \<open>m\<close> and a decimal exponent \<open>k\<close>
  with mathematical value \<open>m * 10^k\<close>.
\<close>

datatype literal = LitInfinity | LitDecimal nat int

definition strUnsignedDecimalLiteral :: "jsstring \<Rightarrow> literal option" where
  "strUnsignedDecimalLiteral s =
     (if take 8 s = js ''Infinity'' then Some LitInfinity
      else
        let ip = takeWhile isDigit s;
            r1 = dropWhile isDigit s;
            dot = (r1 \<noteq> [] \<and> hd r1 = 0x2E);
            fp = (if dot then takeWhile isDigit (tl r1) else []);
            r2 = (if dot then dropWhile isDigit (tl r1) else r1)
        in if ip = [] \<and> fp = [] then None
           else Some (LitDecimal (digitsValue (ip @ fp))
                        (exponentPart r2 - int (length fp))))"

text \<open>Rounding a non-negative quotient \<open>p / q\<close> to the nearest integer, ties to even.\<close>

definition round_half_even :: "nat \<Rightarrow> nat \<Rightarrow> nat" where
  "round_half_even p q =
     (let f = p div q; r = p mod q
      in if 2 * r < q then f
         else if q < 2 * r then f + 1
         else if even f then f else f + 1)"

fun bit_length :: "nat \<Rightarrow> nat" where
  "bit_length n = (if n = 0 then 0 else Suc (bit_length (n div 2)))"

definition pow2 :: "int \<Rightarrow> rat" where
  "pow2 e = (if 0 \<le> e then 2 ^ nat e else 1 / 2 ^ nat (- e))"

text \<open>
  The Number value of \<open>m * 10^k\<close>: the nearest binary64 value (53 significant bits,
  least exponent \<open>-1022\<close>), ties to even; \<open>+Infinity\<close> when the rounded value
  reaches \<open>2^1024\<close>, and zero when it underflows.
\<close>

definition floor_log2 :: "nat \<Rightarrow> nat \<Rightarrow> int" where
  "floor_log2 p q =
     (let d = int (bit_length p) - int (bit_length q)
      in if (if 0 \<le> d then q * 2 ^ nat d \<le> p else q \<le> p * 2 ^ nat (- d)) then d
         else d - 1)"

definition round_scaled :: "nat \<Rightarrow> nat \<Rightarrow> int \<Rightarrow> nat" where
  "round_scaled p q s =
     (if 0 \<le> s then round_half_even p (q * 2 ^ nat s)
      else round_half_even (p * 2 ^ nat (- s)) q)"

definition binary64 :: "nat \<Rightarrow> nat \<Rightarrow> jsnum" where
  "binary64 p q =
     (let s = max (floor_log2 p q) (- 1022) - 52;
          v = of_nat (round_scaled p q s) * pow2 s
      in if pow2 1024 \<le> v then PosInf else Fin v)"

definition number_value :: "nat \<Rightarrow> int \<Rightarrow> jsnum" where
  "number_value m k =
     (if m = 0 then Fin 0
      else if 0 \<le> k then binary64 (m * 10 ^ nat k) 1
      else binary64 m (10 ^ nat (- k)))"

definition literalValue :: "literal \<Rightarrow> jsnum" where
  "literalValue l = (case l of LitInfinity \<Rightarrow> PosInf | LitDecimal m k \<Rightarrow> number_value m k)"

definition strDecimalLiteral :: "jsstring \<Rightarrow> jsnum" where
  "strDecimalLiteral s =
     (case s of
        [] \<Rightarrow> NaN
      | c # r \<Rightarrow>
          if c = 0x2B then
            (case strUnsignedDecimalLiteral r of None \<Rightarrow> NaN | Some l \<Rightarrow> literalValue l)
          else if c = 0x2D then
            (case strUnsignedDecimalLiteral r of None \<Rightarrow> NaN
             | Some l \<Rightarrow> negate (literalValue l))
          else
            (case strUnsignedDecimalLiteral s of None \<Rightarrow> NaN | Some l \<Rightarrow> literalValue l))"

text \<open>
  \<open>parseFloat\<close> converts its argument to a string first: \<open>undefined\<close> becomes the
  text \<open>undefined\<close>; a built-in function or object becomes a text that starts with
  \<open>function\<close> or \<open>[\<close>, which has no numeric prefix; a number is printed so that it
  reads back as itself, the negative zero as \<open>0\<close>.
\<close>

fun parseFloat :: "jsval \<Rightarrow> jsnum" where
  "parseFloat (Str s) = strDecimalLiteral (dropWhile isWhiteSpace s)"
| "parseFloat Undefined = strDecimalLiteral (dropWhile isWhiteSpace (js ''undefined''))"
| "parseFloat Inherited = NaN"
| "parseFloat (Num n) = (if n = NegZero then Fin 0 else n)"

declare parseFloat.simps [simp del]

section \<open>Rows and output records\<close>

text \<open>
  A row is the object the reader builds for one line of the input: its own properties,
  in the order \<open>Object.keys\<close> lists them, each holding the cell's text. An object has
  no two properties of one name, so the keys of a row that the reader built are distinct;
  no theorem below needs that.
\<close>

type_synonym row = "(jsstring \<times> jsstring) list"

definition Object_keys :: "row \<Rightarrow> jsstring list" where
  "Object_keys obj = map fst obj"

text \<open>The members every plain object inherits from \<open>Object.prototype\<close>.\<close>

definition Object_prototype_members :: "jsstring list" where
  "Object_prototype_members =
     map js [''constructor'', ''hasOwnProperty'', ''isPrototypeOf'', ''propertyIsEnumerable'',
             ''toLocaleString'', ''toString'', ''valueOf'', ''__proto__'',
             ''__defineGetter__'', ''__defineSetter__'', ''__lookupGetter__'',
             ''__lookupSetter__'']"

text \<open>
  The property read \<open>obj[key]\<close>: the own property when there is one, else the member
  inherited from \<open>Object.prototype\<close>, else \<open>undefined\<close>. It never throws.
\<close>

definition get :: "row \<Rightarrow> jsstring \<Rightarrow> jsval" where
  "get obj key =
     (case map_of obj key of
        Some v \<Rightarrow> Str v
      | None \<Rightarrow> if key \<in> set Object_prototype_members then Inherited else Undefined)"

record output_record =
  Date :: jsstring
  Ticket :: jsval
  Time_Spent :: jsnum

section \<open>\<open>transposeData\<close>\<close>

text \<open>
  The inner loop \<open>for (const date of dateHeaders)\<close> over one row, and the outer loop
  \<open>for (const row of data)\<close>; \<open>transposed\<close> is the array the loops push to.
\<close>

fun for_dates ::
  "row \<Rightarrow> jsval \<Rightarrow> jsstring list \<Rightarrow> output_record list \<Rightarrow> output_record list" where
  "for_dates row ticketName [] transposed = transposed"
| "for_dates row ticketName (date # dateHeaders) transposed =
     (let timeSpent = get row date;
          parsedTimeSpent = parseFloat timeSpent
      in if \<not> isNaN parsedTimeSpent \<and> gt_zero parsedTimeSpent
         then for_dates row ticketName dateHeaders
                (transposed @
                   [\<lparr>Date = date, Ticket = ticketName, Time_Spent = parsedTimeSpent\<rparr>])
         else for_dates row ticketName dateHeaders transposed)"

fun for_rows ::
  "jsstring \<Rightarrow> jsstring list \<Rightarrow> row list \<Rightarrow> output_record list \<Rightarrow> output_record list" where
  "for_rows ticketHeader dateHeaders [] transposed = transposed"
| "for_rows ticketHeader dateHeaders (row # data) transposed =
     (let ticketName = get row ticketHeader
      in for_rows ticketHeader dateHeaders data
           (for_dates row ticketName dateHeaders transposed))"

text \<open>
  The function is \<open>async\<close> and has no \<open>await\<close> inside: the promise it returns is
  fulfilled with the array \<open>transposed\<close>. The model returns the lines printed with
  \<open>console.log\<close> and that array. No statement of the function can throw on an array
  of rows.
\<close>

definition transposeData :: "row list \<Rightarrow> string list \<times> output_record list" where
  "transposeData data =
     (if length data = 0 then ([''No data found in the input CSV.''], [])
      else
        let allHeaders = Object_keys (data ! 0);
            ticketHeader = js ''Ticket'';
            dateHeaders = filter (\<lambda>header. header \<noteq> ticketHeader) allHeaders
        in ([], for_rows ticketHeader dateHeaders data []))"

section \<open>\<open>processCsv\<close>: the table handed to the writer\<close>

text \<open>The \<open>header\<close> option of the writer: the \<open>id\<close> and the \<open>title\<close> of each column.\<close>

definition csvWriter_header :: "(jsstring \<times> jsstring) list" where
  "csvWriter_header =
     [(js ''Date'', js ''Date''),
      (js ''Ticket'', js ''Ticket''),
      (js ''Time Spent'', js ''Time Spent'')]"

text \<open>The property read \<open>record[id]\<close> on an object that \<open>transposeData\<close> pushed.\<close>

definition field :: "output_record \<Rightarrow> jsstring \<Rightarrow> jsval" where
  "field r fid =
     (if fid = js ''Date'' then Str (Date r)
      else if fid = js ''Ticket'' then Ticket r
      else if fid = js ''Time Spent'' then Num (Time_Spent r)
      else if fid \<in> set Object_prototype_members then Inherited
      else Undefined)"

text \<open>
  Modelled from the spec: the CSV serialization library is not part of the repository;
  the spec treats it as a writer accepting an ordered header and a sequence of records.
  The table it writes is the line of the titles, then one line for each record in the
  order given, holding under each column the record's field of that column's \<open>id\<close>.
  Quoting and the printing of numbers are left to the library.
\<close>

definition writeRecords ::
  "(jsstring \<times> jsstring) list \<Rightarrow> output_record list \<Rightarrow> jsval list list" where
  "writeRecords header records =
     map (\<lambda>column. Str (snd column)) header
       # map (\<lambda>r. map (\<lambda>column. field r (fst column)) header) records"

text \<open>
  The \<open>end\<close> handler of \<open>processCsv\<close>, for the rows the reader delivered: the table
  that \<open>csvWriter.writeRecords(transposedData)\<close> writes. The progress messages of
  \<open>processCsv\<close> are not modelled.
\<close>

definition processCsv_end :: "row list \<Rightarrow> jsval list list" where
  "processCsv_end records =
     (let transposedData = snd (transposeData records)
      in writeRecords csvWriter_header transposedData)"

section \<open>The vocabulary of the specification\<close>

text \<open>
  The date columns in the spec's words: the first row's keys without \<open>Ticket\<close>; none
  for the empty input.
\<close>

definition date_columns :: "row list \<Rightarrow> jsstring list" where
  "date_columns data =
     (case data of
        [] \<Rightarrow> []
      | first # _ \<Rightarrow> filter (\<lambda>k. k \<noteq> js ''Ticket'') (map fst first))"

text \<open>
  A cell is a pair of a row index and a date-column index; \<open>cells\<close> lists them row by
  row, \<open>cell\<close> is what the program reads there, \<open>passes\<close> is the filtering
  predicate (the parse is a number, and greater than 0), \<open>record_of\<close> the record of a
  cell, and \<open>emitting_cells\<close> the cells that pass.
\<close>

definition cells :: "row list \<Rightarrow> (nat \<times> nat) list" where
  "cells data = List.product [0..<length data] [0..<length (date_columns data)]"

definition cell :: "row list \<Rightarrow> nat \<times> nat \<Rightarrow> jsval" where
  "cell data c = get (data ! fst c) (date_columns data ! snd c)"

definition passes :: "jsval \<Rightarrow> bool" where
  "passes v = (parseFloat v \<noteq> NaN \<and> gt_zero (parseFloat v))"

definition record_of :: "row list \<Rightarrow> nat \<times> nat \<Rightarrow> output_record" where
  "record_of data c =
     \<lparr>Date = date_columns data ! snd c,
      Ticket = get (data ! fst c) (js ''Ticket''),
      Time_Spent = parseFloat (cell data c)\<rparr>"

definition emitting_cells :: "row list \<Rightarrow> (nat \<times> nat) list" where
  "emitting_cells data = filter (\<lambda>c. passes (cell data c)) (cells data)"

text \<open>Scenario A of the spec.\<close>

definition scenario_A :: "row list" where
  "scenario_A =
     [[(js ''Ticket'', js ''T1''), (js ''2025-05-01'', js ''2''), (js ''2025-05-02'', js ''0'')],
      [(js ''Ticket'', js ''T2''), (js ''2025-05-01'', js ''''), (js ''2025-05-02'', js ''3.5'')]]"

text \<open>The order of the nested iteration on cells: by row, then by date column.\<close>

definition row_major :: "nat \<times> nat \<Rightarrow> nat \<times> nat \<Rightarrow> bool" where
  "row_major c c' = (fst c < fst c' \<or> (fst c = fst c' \<and> snd c < snd c'))"

text \<open>The invariant of the spec on \<open>TimeSpent\<close>: a finite, strictly positive number.\<close>

fun finite_positive :: "jsnum \<Rightarrow> bool" where
  "finite_positive (Fin q) = (0 < q)"
| "finite_positive _ = False"

text \<open>
  Further inputs: a cell that reads \<open>Infinity\<close>; one ticket on two rows; Scenario A with
  the second row's keys in another order and a key the first row does not have; the cells
  \<open>2h\<close> and \<open>abc\<close> of Scenario C; a ticket whose name is the empty string; a second
  row without the last date column.
\<close>

definition infinity_input :: "row list" where
  "infinity_input = [[(js ''Ticket'', js ''T1''), (js ''2025-05-01'', js ''Infinity'')]]"

definition shared_ticket :: "row list" where
  "shared_ticket =
     [[(js ''Ticket'', js ''T1''), (js ''2025-05-01'', js ''2'')],
      [(js ''Ticket'', js ''T1''), (js ''2025-05-01'', js ''2'')]]"

definition reordered_row :: "row list" where
  "reordered_row =
     [[(js ''Ticket'', js ''T1''), (js ''2025-05-01'', js ''2''), (js ''2025-05-02'', js ''0'')],
      [(js ''Notes'', js ''9''), (js ''2025-05-02'', js ''3.5''), (js ''Ticket'', js ''T2''),
       (js ''2025-05-01'', js '''')]]"

definition prefix_input :: "row list" where
  "prefix_input =
     [[(js ''Ticket'', js ''T1''), (js ''2025-05-01'', js ''2h''),
       (js ''2025-05-02'', js ''abc'')]]"

definition empty_ticket :: "row list" where
  "empty_ticket = [[(js ''Ticket'', js ''''), (js ''2025-05-01'', js ''2'')]]"

definition short_row :: "row list" where
  "short_row =
     [[(js ''Ticket'', js ''T1''), (js ''2025-05-01'', js ''2''), (js ''2025-05-02'', js ''2'')],
      [(js ''Ticket'', js ''T2''), (js ''2025-05-01'', js ''2'')]]"

section \<open>Values of \<open>parseFloat\<close>\<close>

lemmas parse_defs = js_def strDecimalLiteral_def strUnsignedDecimalLiteral_def literalValue_def
  number_value_def binary64_def floor_log2_def round_scaled_def round_half_even_def pow2_def
  exponentPart_def signedInteger_def digitsValue_def digitValue_def isDigit_def
  isWhiteSpace_def Let_def parseFloat.simps

lemma parse_2: "parseFloat (Str (js ''2'')) = Fin 2"
  by (simp add: parse_defs)

lemma parse_0: "parseFloat (Str (js ''0'')) = Fin 0"
  by (simp add: parse_defs)

lemma parse_empty: "parseFloat (Str (js '''')) = NaN"
  by (simp add: parse_defs)

lemma parse_3_5: "parseFloat (Str (js ''3.5'')) = Fin (7 / 2)"
  by (simp add: parse_defs)

lemma parse_2h: "parseFloat (Str (js ''2h'')) = Fin 2"
  by (simp add: parse_defs)

lemma parse_abc: "parseFloat (Str (js ''abc'')) = NaN"
  by (simp add: parse_defs)

lemma parse_negative: "parseFloat (Str (js ''-1'')) = Fin (- 1)"
  by (simp add: parse_defs)

lemma parse_spaces: "parseFloat (Str (js '' 1.5e1 h'')) = Fin 15"
  by (simp add: parse_defs)

lemma parse_Infinity: "parseFloat (Str (js ''Infinity'')) = PosInf"
  by (simp add: parse_defs)

lemma parse_undefined: "parseFloat Undefined = NaN"
  by (simp add: parse_defs)

text \<open>
  The parse is permissive: after a numeric prefix, a text that cannot continue the
  literal is ignored; a text that starts with no white space, digit, sign, dot or
  \<open>I\<close> has no numeric prefix.
\<close>

lemma number_value_2: "number_value 2 0 = Fin 2"
  by (simp add: number_value_def binary64_def floor_log2_def round_scaled_def
      round_half_even_def pow2_def Let_def)

lemma trailing_ignored:
  assumes "rest = [] \<or> (\<not> isDigit (hd rest) \<and> hd rest \<notin> {0x2E, 0x65, 0x45})"
  shows "parseFloat (Str (js ''2'' @ rest)) = Fin 2"
proof -
  have d: "isDigit 0x32" "\<not> isWhiteSpace 0x32"
    by (simp_all add: isDigit_def isWhiteSpace_def)
  from assms have t: "takeWhile isDigit rest = []" and r: "dropWhile isDigit rest = rest"
    by (cases rest; simp)+
  from assms have e: "exponentPart rest = 0" and n: "rest = [] \<or> hd rest \<noteq> 0x2E"
    by (cases rest; simp add: exponentPart_def)+
  have v: "digitsValue [0x32] = 2"
    by (simp add: digitsValue_def digitValue_def)
  from n have "strUnsignedDecimalLiteral (0x32 # rest) = Some (LitDecimal 2 0)"
    by (auto simp add: strUnsignedDecimalLiteral_def js_def d t r e v Let_def)
  then have "strDecimalLiteral (0x32 # rest) = Fin 2"
    by (simp add: strDecimalLiteral_def literalValue_def number_value_2)
  then show ?thesis
    by (simp add: parseFloat.simps js_def d)
qed

lemma no_numeric_prefix:
  "\<not> isWhiteSpace c \<Longrightarrow> \<not> isDigit c \<Longrightarrow> c \<notin> {0x2B, 0x2D, 0x2E, 0x49} \<Longrightarrow>
   parseFloat (Str (c # r)) = NaN"
  by (simp add: strDecimalLiteral_def strUnsignedDecimalLiteral_def js_def Let_def
      parseFloat.simps)

text \<open>The value is rounded to binary64: \<open>0.1\<close> is not one tenth.\<close>

lemma parse_tenth:
  "parseFloat (Str (js ''0.1'')) = Fin (3602879701896397 / 36028797018963968)"
  by (simp add: parse_defs)

lemma parse_missing: "map_of obj key = None \<Longrightarrow> parseFloat (get obj key) = NaN"
  by (simp add: get_def parse_undefined parseFloat.simps)

lemma passes_positive:
  "passes v \<Longrightarrow> parseFloat v = PosInf \<or> (\<exists>q. 0 < q \<and> parseFloat v = Fin q)"
  by (cases "parseFloat v") (simp_all add: passes_def)

section \<open>The loops as a list of records\<close>

lemma for_dates_eq:
  "for_dates row t ds acc =
     acc @ map (\<lambda>d. \<lparr>Date = d, Ticket = t, Time_Spent = parseFloat (get row d)\<rparr>)
             (filter (\<lambda>d. passes (get row d)) ds)"
  by (induction ds arbitrary: acc) (simp_all add: Let_def passes_def isNaN_def)

lemma for_rows_eq:
  "for_rows th ds rows acc =
     acc @ concat (map (\<lambda>row. map (\<lambda>d. \<lparr>Date = d, Ticket = get row th,
                                           Time_Spent = parseFloat (get row d)\<rparr>)
                                 (filter (\<lambda>d. passes (get row d)) ds)) rows)"
  by (induction rows arbitrary: acc) (simp_all add: Let_def for_dates_eq)

lemma transposed_rows:
  "snd (transposeData data) =
     concat (map (\<lambda>row. map (\<lambda>d. \<lparr>Date = d, Ticket = get row (js ''Ticket''),
                                      Time_Spent = parseFloat (get row d)\<rparr>)
                            (filter (\<lambda>d. passes (get row d)) (date_columns data))) data)"
proof (cases data)
  case Nil
  then show ?thesis by (simp add: transposeData_def)
next
  case (Cons first rest)
  then show ?thesis
    by (simp add: transposeData_def for_rows_eq date_columns_def Object_keys_def Let_def)
qed

lemma map_filter_index:
  "map f (filter P xs) = map (\<lambda>j. f (xs ! j)) (filter (\<lambda>j. P (xs ! j)) [0..<length xs])"
proof -
  have "map f (filter P (map (\<lambda>j. xs ! j) [0..<length xs])) =
        map (\<lambda>j. f (xs ! j)) (filter (\<lambda>j. P (xs ! j)) [0..<length xs])"
    by (simp add: filter_map comp_def)
  then show ?thesis by (simp add: map_nth)
qed

lemma concat_map_index:
  "concat (map F xs) = concat (map (\<lambda>i. F (xs ! i)) [0..<length xs])"
proof -
  have "map F (map (\<lambda>i. xs ! i) [0..<length xs]) = map (\<lambda>i. F (xs ! i)) [0..<length xs]"
    by simp
  then show ?thesis by (simp add: map_nth)
qed

lemma cells_records:
  "map (record_of data) (emitting_cells data) =
     concat (map (\<lambda>i. map (\<lambda>j. record_of data (i, j))
                          (filter (\<lambda>j. passes (cell data (i, j))) [0..<length (date_columns data)]))
                 [0..<length data])"
  by (simp add: emitting_cells_def cells_def product_concat_map filter_concat map_concat
      filter_map comp_def)

lemma transposed_cells:
  "snd (transposeData data) = map (record_of data) (emitting_cells data)"
  unfolding cells_records
  by (subst transposed_rows, subst concat_map_index, subst map_filter_index)
     (simp add: record_of_def cell_def)

lemma distinct_emitting_cells: "distinct (emitting_cells data)"
  by (simp add: emitting_cells_def cells_def distinct_product)

lemma set_emitting_cells:
  "set (emitting_cells data) =
     {c. fst c < length data \<and> snd c < length (date_columns data) \<and> passes (cell data c)}"
  by (auto simp: emitting_cells_def cells_def)

lemma sorted_product: "sorted_wrt row_major (List.product [0..<n] [0..<m])"
proof (induction n)
  case 0
  show ?case by simp
next
  case (Suc n)
  have "List.product [0..<Suc n] [0..<m] = List.product [0..<n] [0..<m] @ map (Pair n) [0..<m]"
    by (simp add: product_concat_map)
  with Suc show ?case
    by (auto simp: sorted_wrt_append sorted_wrt_map row_major_def)
qed

lemma sorted_emitting_cells: "sorted_wrt row_major (emitting_cells data)"
  by (simp add: emitting_cells_def cells_def sorted_product sorted_wrt_filter)

lemma for_dates_cong:
  "\<forall>d \<in> set ds. get r d = get r' d \<Longrightarrow> for_dates r t ds acc = for_dates r' t ds acc"
  by (induction ds arbitrary: acc) (simp_all add: Let_def)

lemma transposed_for_dates:
  "snd (transposeData (first # rest)) =
     concat (map (\<lambda>row. for_dates row (get row (js ''Ticket''))
                          (filter (\<lambda>k. k \<noteq> js ''Ticket'') (Object_keys first)) [])
                 (first # rest))"
  by (simp add: transposed_rows date_columns_def for_dates_eq Object_keys_def)

lemma rows_agree:
  "list_all2 (\<lambda>r r'. get r th = get r' th \<and> (\<forall>k \<in> set ks. get r k = get r' k)) rs rs' \<Longrightarrow>
   concat (map (\<lambda>row. for_dates row (get row th) (filter P ks) []) rs) =
   concat (map (\<lambda>row. for_dates row (get row th) (filter P ks) []) rs')"
proof (induction rs rs' rule: list_all2_induct)
  case Nil
  show ?case by simp
next
  case (Cons r rs r' rs')
  from Cons.hyps(1) have "for_dates r (get r th) (filter P ks) [] =
      for_dates r' (get r' th) (filter P ks) []"
    using for_dates_cong [of "filter P ks" r r' "get r' th" "[]"] by simp
  with Cons.IH show ?case by simp
qed

section \<open>The example inputs\<close>

lemma keys_differ:
  "js ''2025-05-01'' \<noteq> js ''Ticket''"
  "js ''2025-05-02'' \<noteq> js ''Ticket''"
  "js ''2025-05-02'' \<noteq> js ''2025-05-01''"
  "js ''Ticket'' \<notin> set Object_prototype_members"
  "js ''2025-05-01'' \<notin> set Object_prototype_members"
  "js ''2025-05-02'' \<notin> set Object_prototype_members"
  by (simp_all add: js_def Object_prototype_members_def)

lemma scenario_A_columns: "date_columns scenario_A = [js ''2025-05-01'', js ''2025-05-02'']"
  by (simp add: date_columns_def scenario_A_def js_def)

lemma scenario_A_cells:
  "cell scenario_A (0, 0) = Str (js ''2'')"
  "cell scenario_A (0, Suc 0) = Str (js ''0'')"
  "cell scenario_A (Suc 0, 0) = Str (js '''')"
  "cell scenario_A (Suc 0, Suc 0) = Str (js ''3.5'')"
  by (simp_all add: cell_def scenario_A_columns get_def) (simp_all add: scenario_A_def js_def)

lemma scenario_A_emitting: "emitting_cells scenario_A = [(0, 0), (Suc 0, Suc 0)]"
proof -
  have "cells scenario_A = [(0, 0), (0, Suc 0), (Suc 0, 0), (Suc 0, Suc 0)]"
    by (simp add: cells_def scenario_A_columns) (simp add: scenario_A_def upt_rec)
  then show ?thesis
    by (simp add: emitting_cells_def passes_def scenario_A_cells parse_2 parse_0 parse_empty
        parse_3_5)
qed

lemma scenario_A_records:
  "record_of scenario_A (0, 0) =
     \<lparr>Date = js ''2025-05-01'', Ticket = Str (js ''T1''), Time_Spent = Fin 2\<rparr>"
  "record_of scenario_A (Suc 0, Suc 0) =
     \<lparr>Date = js ''2025-05-02'', Ticket = Str (js ''T2''), Time_Spent = Fin (7 / 2)\<rparr>"
  by (simp_all add: record_of_def scenario_A_columns scenario_A_cells parse_2 parse_3_5 get_def)
     (simp_all add: scenario_A_def js_def)

lemma infinity_input_records:
  "snd (transposeData infinity_input) =
     [\<lparr>Date = js ''2025-05-01'', Ticket = Str (js ''T1''), Time_Spent = PosInf\<rparr>]"
  by (simp add: transposeData_def infinity_input_def Object_keys_def Let_def get_def keys_differ
      parse_Infinity isNaN_def)

lemma shared_ticket_records:
  "snd (transposeData shared_ticket) =
     [\<lparr>Date = js ''2025-05-01'', Ticket = Str (js ''T1''), Time_Spent = Fin 2\<rparr>,
      \<lparr>Date = js ''2025-05-01'', Ticket = Str (js ''T1''), Time_Spent = Fin 2\<rparr>]"
  by (simp add: transposeData_def shared_ticket_def Object_keys_def Let_def get_def keys_differ
      parse_2 isNaN_def)

lemma prefix_input_records:
  "snd (transposeData prefix_input) =
     [\<lparr>Date = js ''2025-05-01'', Ticket = Str (js ''T1''), Time_Spent = Fin 2\<rparr>]"
  by (simp add: transposeData_def prefix_input_def Object_keys_def Let_def get_def keys_differ
      parse_2h parse_abc isNaN_def)

lemma short_row_records:
  "snd (transposeData short_row) =
     [\<lparr>Date = js ''2025-05-01'', Ticket = Str (js ''T1''), Time_Spent = Fin 2\<rparr>,
      \<lparr>Date = js ''2025-05-02'', Ticket = Str (js ''T1''), Time_Spent = Fin 2\<rparr>,
      \<lparr>Date = js ''2025-05-01'', Ticket = Str (js ''T2''), Time_Spent = Fin 2\<rparr>]"
  by (simp add: transposeData_def short_row_def Object_keys_def Let_def get_def keys_differ
      parse_2 parse_undefined isNaN_def)

lemma empty_ticket_emitting: "emitting_cells empty_ticket = [(0, 0)]"
proof -
  have c: "date_columns empty_ticket = [js ''2025-05-01'']"
    by (simp add: date_columns_def empty_ticket_def js_def)
  have "cell empty_ticket (0, 0) = Str (js ''2'')"
    by (simp add: cell_def c get_def) (simp add: empty_ticket_def js_def)
  moreover have "cells empty_ticket = [(0, 0)]"
    by (simp add: cells_def c) (simp add: empty_ticket_def)
  ultimately show ?thesis
    by (simp add: emitting_cells_def passes_def parse_2)
qed

section \<open>Filtering, shape and order\<close>

text \<open>
  C1. For every input and every cell (a row and a date column), the transform emits a
  record for the cell if and only if the parse of what it reads there is a number and is
  greater than 0: the output holds one record for each cell of \<open>emitting_cells\<close>, no
  cell is listed twice, and the cells listed are exactly the cells of the input whose
  parse is not NaN and is greater than 0.
\<close>

theorem cell_emitted_iff_passes:
  "snd (transposeData data) = map (record_of data) (emitting_cells data) \<and>
   distinct (emitting_cells data) \<and>
   set (emitting_cells data) =
     {c. fst c < length data \<and> snd c < length (date_columns data) \<and>
         parseFloat (cell data c) \<noteq> NaN \<and> gt_zero (parseFloat (cell data c))}"
  using transposed_cells [of data] distinct_emitting_cells [of data] set_emitting_cells [of data]
  by (simp add: passes_def)

text \<open>On Scenario A the cells with \<open>0\<close> and with the empty text give no record.\<close>

theorem cell_emitted_iff_passes_witness:
  "snd (transposeData scenario_A) =
     [\<lparr>Date = js ''2025-05-01'', Ticket = Str (js ''T1''), Time_Spent = Fin 2\<rparr>,
      \<lparr>Date = js ''2025-05-02'', Ticket = Str (js ''T2''), Time_Spent = Fin (7 / 2)\<rparr>]"
  using cell_emitted_iff_passes [of scenario_A]
  by (simp add: scenario_A_emitting scenario_A_records)

text \<open>
  C2, as the spec states it: the \<open>TimeSpent\<close> of every record is a finite, strictly
  positive number. It fails for a cell that reads \<open>Infinity\<close>: the parse is
  \<open>+Infinity\<close>, which is not NaN and is greater than 0, so the record is pushed.
\<close>

theorem time_spent_finite_counterexample:
  "map Time_Spent (snd (transposeData infinity_input)) = [PosInf] \<and>
   \<not> list_all finite_positive (map Time_Spent (snd (transposeData infinity_input)))"
  by (simp add: infinity_input_records)

text \<open>
  C2, amended: the \<open>TimeSpent\<close> of every record is not NaN and is greater than 0; it is
  a positive finite number or \<open>+Infinity\<close>, never NaN, a zero, a negative number or
  \<open>-Infinity\<close>.
\<close>

theorem time_spent_positive:
  "\<forall>r \<in> set (snd (transposeData data)).
      \<not> isNaN (Time_Spent r) \<and> gt_zero (Time_Spent r) \<and>
      (Time_Spent r = PosInf \<or> (\<exists>q. 0 < q \<and> Time_Spent r = Fin q))"
proof
  fix r
  assume "r \<in> set (snd (transposeData data))"
  then obtain c where c: "c \<in> set (emitting_cells data)" and r: "r = record_of data c"
    by (auto simp: transposed_cells)
  from c have p: "passes (cell data c)"
    by (simp add: set_emitting_cells)
  from passes_positive [OF p] p r
  show "\<not> isNaN (Time_Spent r) \<and> gt_zero (Time_Spent r) \<and>
      (Time_Spent r = PosInf \<or> (\<exists>q. 0 < q \<and> Time_Spent r = Fin q))"
    by (simp add: record_of_def passes_def isNaN_def)
qed

theorem time_spent_positive_witness:
  "\<lparr>Date = js ''2025-05-02'', Ticket = Str (js ''T2''), Time_Spent = Fin (7 / 2)\<rparr>
     \<in> set (snd (transposeData scenario_A)) \<and>
   \<not> isNaN (Fin (7 / 2)) \<and> gt_zero (Fin (7 / 2))"
proof -
  have m: "\<lparr>Date = js ''2025-05-02'', Ticket = Str (js ''T2''), Time_Spent = Fin (7 / 2)\<rparr>
      \<in> set (snd (transposeData scenario_A))"
    by (simp add: transposed_cells scenario_A_emitting scenario_A_records)
  from time_spent_positive [of scenario_A] m show ?thesis
    by fastforce
qed

text \<open>
  C3. For every input, the number of output records is the number of cells (pairs of a
  row and a date column) whose parse is not NaN and is greater than 0. Rows are counted
  by position, so two rows with the same ticket each give their own records.
\<close>

theorem record_count:
  "length (snd (transposeData data)) =
     card {c. fst c < length data \<and> snd c < length (date_columns data) \<and>
              parseFloat (cell data c) \<noteq> NaN \<and> gt_zero (parseFloat (cell data c))}"
proof -
  have "length (snd (transposeData data)) = length (emitting_cells data)"
    by (simp add: transposed_cells)
  also have "\<dots> = card (set (emitting_cells data))"
    by (simp add: distinct_card distinct_emitting_cells)
  finally show ?thesis
    by (simp add: set_emitting_cells passes_def)
qed

text \<open>Two rows of one ticket with the same date: two equal records, not one, not a sum.\<close>

theorem record_count_witness:
  "snd (transposeData shared_ticket) =
     [\<lparr>Date = js ''2025-05-01'', Ticket = Str (js ''T1''), Time_Spent = Fin 2\<rparr>,
      \<lparr>Date = js ''2025-05-01'', Ticket = Str (js ''T1''), Time_Spent = Fin 2\<rparr>] \<and>
   card {c. fst c < length shared_ticket \<and> snd c < length (date_columns shared_ticket) \<and>
            parseFloat (cell shared_ticket c) \<noteq> NaN \<and>
            gt_zero (parseFloat (cell shared_ticket c))} = 2"
  using record_count [of shared_ticket] by (simp add: shared_ticket_records)

text \<open>
  C4. For every input, the output records are in the order of the nested iteration: the
  cells they come from are listed in strictly increasing order, by row in the order of the
  input and, within a row, by date column in the order of the first row's keys.
\<close>

theorem output_order:
  "snd (transposeData data) = map (record_of data) (emitting_cells data) \<and>
   sorted_wrt row_major (emitting_cells data)"
  by (simp add: transposed_cells sorted_emitting_cells)

theorem output_order_witness:
  "emitting_cells scenario_A = [(0, 0), (Suc 0, Suc 0)] \<and>
   row_major (0, 0) (Suc 0, Suc 0) \<and>
   map Date (snd (transposeData scenario_A)) = [js ''2025-05-01'', js ''2025-05-02'']"
  using output_order [of scenario_A]
  by (simp add: scenario_A_emitting scenario_A_records row_major_def)

section \<open>The header and the empty input\<close>

text \<open>
  C5. For every non-empty input, every row is scanned over the same date columns, in the
  same order: the keys of the first row that are not \<open>Ticket\<close>, a list that depends on
  the first row only. The keys of the later rows do not matter: later rows that read the
  same at \<open>Ticket\<close> and at the first row's keys give the same output, whatever other
  keys they have and in whatever order.
\<close>

theorem header_from_first_row:
  "snd (transposeData (first # rest)) =
     concat (map (\<lambda>row. for_dates row (get row (js ''Ticket''))
                          (filter (\<lambda>k. k \<noteq> js ''Ticket'') (Object_keys first)) [])
                 (first # rest)) \<and>
   set (filter (\<lambda>k. k \<noteq> js ''Ticket'') (Object_keys first)) =
     set (Object_keys first) - {js ''Ticket''} \<and>
   (list_all2 (\<lambda>r r'. get r (js ''Ticket'') = get r' (js ''Ticket'') \<and>
                       (\<forall>k \<in> set (Object_keys first). get r k = get r' k)) rest rest' \<longrightarrow>
    snd (transposeData (first # rest)) = snd (transposeData (first # rest')))"
proof (intro conjI impI)
  show "snd (transposeData (first # rest)) =
     concat (map (\<lambda>row. for_dates row (get row (js ''Ticket''))
                          (filter (\<lambda>k. k \<noteq> js ''Ticket'') (Object_keys first)) [])
                 (first # rest))"
    by (rule transposed_for_dates)
  show "set (filter (\<lambda>k. k \<noteq> js ''Ticket'') (Object_keys first)) =
     set (Object_keys first) - {js ''Ticket''}"
    by auto
  assume "list_all2 (\<lambda>r r'. get r (js ''Ticket'') = get r' (js ''Ticket'') \<and>
                       (\<forall>k \<in> set (Object_keys first). get r k = get r' k)) rest rest'"
  from rows_agree [OF this]
  show "snd (transposeData (first # rest)) = snd (transposeData (first # rest'))"
    by (simp add: transposed_for_dates)
qed

theorem header_from_first_row_witness:
  "list_all2 (\<lambda>r r'. get r (js ''Ticket'') = get r' (js ''Ticket'') \<and>
                      (\<forall>k \<in> set (Object_keys (hd scenario_A)). get r k = get r' k))
      (tl scenario_A) (tl reordered_row) \<and>
   snd (transposeData scenario_A) = snd (transposeData reordered_row)"
proof -
  have h: "list_all2 (\<lambda>r r'. get r (js ''Ticket'') = get r' (js ''Ticket'') \<and>
            (\<forall>k \<in> set (Object_keys (hd scenario_A)). get r k = get r' k))
          (tl scenario_A) (tl reordered_row)"
    by (simp add: scenario_A_def reordered_row_def Object_keys_def get_def keys_differ)
       (simp add: js_def)
  have a: "hd scenario_A # tl scenario_A = scenario_A"
    by (simp add: scenario_A_def)
  have b: "hd scenario_A # tl reordered_row = reordered_row"
    by (simp add: scenario_A_def reordered_row_def)
  from header_from_first_row [of "hd scenario_A" "tl scenario_A" "tl reordered_row"] h
  have "snd (transposeData (hd scenario_A # tl scenario_A)) =
      snd (transposeData (hd scenario_A # tl reordered_row))"
    by blast
  then have "snd (transposeData scenario_A) = snd (transposeData reordered_row)"
    by (simp only: a b)
  with h show ?thesis by blast
qed

text \<open>
  C6. For the empty input the transform returns the empty array at once, after one
  message on the console: no header is derived, no cell is read, and nothing is thrown.
\<close>

theorem empty_input: "transposeData [] = ([''No data found in the input CSV.''], [])"
  by (simp add: transposeData_def)

section \<open>Cell values and ticket names\<close>

text \<open>
  C7. The parse reads a leading numeric prefix and ignores what follows it: the cell
  \<open>2h\<close> parses to 2 and the cell \<open>abc\<close> to NaN, and a row with these two cells gives
  one record, with \<open>TimeSpent\<close> 2, for the first of them.
\<close>

theorem numeric_prefix:
  "parseFloat (Str (js ''2h'')) = Fin 2 \<and>
   parseFloat (Str (js ''abc'')) = NaN \<and>
   snd (transposeData prefix_input) =
     [\<lparr>Date = js ''2025-05-01'', Ticket = Str (js ''T1''), Time_Spent = Fin 2\<rparr>]"
  by (simp add: parse_2h parse_abc prefix_input_records)

text \<open>
  C8. For every row that has the key \<open>Ticket\<close>, every record emitted for a cell of
  that row carries the value of that key as it is, the empty string included.
\<close>

theorem ticket_verbatim:
  assumes "i < length data" and "map_of (data ! i) (js ''Ticket'') = Some t"
  shows "snd (transposeData data) = map (record_of data) (emitting_cells data) \<and>
         (\<forall>k < length (emitting_cells data).
            fst (emitting_cells data ! k) = i \<longrightarrow>
            Ticket (snd (transposeData data) ! k) = Str t)"
  using assms by (simp add: transposed_cells record_of_def get_def)

theorem ticket_verbatim_witness:
  "map_of (empty_ticket ! 0) (js ''Ticket'') = Some [] \<and>
   emitting_cells empty_ticket = [(0, 0)] \<and>
   Ticket (snd (transposeData empty_ticket) ! 0) = Str []"
proof -
  have t: "map_of (empty_ticket ! 0) (js ''Ticket'') = Some []"
    by (simp add: empty_ticket_def js_def)
  have l: "0 < length empty_ticket"
    by (simp add: empty_ticket_def)
  from ticket_verbatim [OF l t]
  have "\<forall>k < length (emitting_cells empty_ticket).
          fst (emitting_cells empty_ticket ! k) = 0 \<longrightarrow>
          Ticket (snd (transposeData empty_ticket) ! k) = Str []"
    by (rule conjunct2)
  then have "Ticket (snd (transposeData empty_ticket) ! 0) = Str []"
    by (simp add: empty_ticket_emitting)
  with t empty_ticket_emitting show ?thesis by blast
qed

text \<open>
  C10. For every row that does not have one of the date columns of the first row as a key
  of its own, the transform skips that cell without an error: what it reads there parses
  to NaN, the cell emits no record, and the output is that of the other cells.
\<close>

theorem missing_key_skipped:
  assumes "i < length data" and "j < length (date_columns data)"
    and "map_of (data ! i) (date_columns data ! j) = None"
  shows "parseFloat (cell data (i, j)) = NaN \<and>
         (i, j) \<notin> set (emitting_cells data) \<and>
         snd (transposeData data) =
           map (record_of data) (filter (\<lambda>c. c \<noteq> (i, j)) (emitting_cells data))"
proof -
  from assms(3) have n: "parseFloat (cell data (i, j)) = NaN"
    by (simp add: cell_def parse_missing)
  then have m: "(i, j) \<notin> set (emitting_cells data)"
    by (simp add: set_emitting_cells passes_def)
  then have "filter (\<lambda>c. c \<noteq> (i, j)) (emitting_cells data) = emitting_cells data"
    by (simp add: filter_id_conv) blast
  with n m show ?thesis
    by (simp add: transposed_cells)
qed

theorem missing_key_skipped_witness:
  "map_of (short_row ! 1) (date_columns short_row ! 1) = None \<and>
   (1, 1) \<notin> set (emitting_cells short_row) \<and>
   snd (transposeData short_row) =
     [\<lparr>Date = js ''2025-05-01'', Ticket = Str (js ''T1''), Time_Spent = Fin 2\<rparr>,
      \<lparr>Date = js ''2025-05-02'', Ticket = Str (js ''T1''), Time_Spent = Fin 2\<rparr>,
      \<lparr>Date = js ''2025-05-01'', Ticket = Str (js ''T2''), Time_Spent = Fin 2\<rparr>]"
proof -
  have c: "date_columns short_row = [js ''2025-05-01'', js ''2025-05-02'']"
    by (simp add: date_columns_def short_row_def js_def)
  have l: "length short_row = 2"
    by (simp add: short_row_def)
  have h: "map_of (short_row ! 1) (date_columns short_row ! 1) = None"
    by (simp add: c) (simp add: short_row_def js_def)
  from missing_key_skipped [of 1 short_row 1, OF _ _ h] short_row_records h show ?thesis
    by (simp add: c l)
qed

section \<open>The output table\<close>

text \<open>
  C9. The table written has the three columns \<open>Date\<close>, \<open>Ticket\<close> and
  \<open>Time Spent\<close> (with a space), in this order, and then one line for each record of the
  transform, in the transform's order, with the record's date, ticket and time spent
  under these columns.
\<close>

theorem output_table:
  "processCsv_end records =
     [Str (js ''Date''), Str (js ''Ticket''), Str (js ''Time Spent'')]
       # map (\<lambda>r. [Str (Date r), Ticket r, Num (Time_Spent r)]) (snd (transposeData records))"
proof -
  have k: "js ''Ticket'' \<noteq> js ''Date''" "js ''Time Spent'' \<noteq> js ''Date''"
    "js ''Time Spent'' \<noteq> js ''Ticket''"
    by (simp_all add: js_def)
  show ?thesis
    by (simp add: processCsv_end_def writeRecords_def csvWriter_header_def field_def k)
qed

end
